theory Spec2Isabelle
  imports Main
begin

section \<open>PyToExeBuilder: a shallow embedding of \<^verbatim>\<open>src/tretool/pyToExe.py\<close>\<close>

text \<open>
  The class \<^verbatim>\<open>PyToExeBuilder\<close> is a record of its eight attributes. Its methods
  mutate the object and the file system and may raise, so each method is a function
  from the object and the world to a result (\<open>Inl\<close> the exception raised) together with
  the object and the world as they are left behind, also when the method raised.

  A Python \<^verbatim>\<open>str\<close> is the list of its code points; \<open>char\<close> covers the code points
  below 256. The copyright sign U+00A9 is \<open>CHR 0xA9\<close>.
\<close>

subsection \<open>Exceptions\<close>

text \<open>
  One constructor for each exception class the module can raise or let through.
  The spec's error names are read as: FileNotFound is \<open>FileNotFoundError\<close>,
  UnsupportedInputType is \<open>ValueError\<close>, UnsupportedPlatform is
  \<open>NotImplementedError\<close>, MissingBuildTool is \<open>RuntimeError\<close>, ArtifactNotFound is
  the \<open>StopIteration\<close> of \<^verbatim>\<open>next\<close> on an exhausted glob. \<open>AttributeError\<close> carries
  the name of the attribute that was not found; \<open>ToolError\<close> is whatever an external
  tool raised.
\<close>

datatype error =
    FileNotFoundError
  | ValueError
  | NotImplementedError
  | RuntimeError
  | StopIteration
  | AttributeError string
  | FileExistsError
  | NotADirectoryError
  | IsADirectoryError
  | SameFileError
  | ToolError string

subsection \<open>Paths and the file system\<close>

text \<open>
  A \<^verbatim>\<open>Path\<close> is the location it denotes: the list of its components from the root.
  \<^verbatim>\<open>p / c\<close> appends a component. \<^verbatim>\<open>name\<close>, \<^verbatim>\<open>suffix\<close> and \<^verbatim>\<open>stem\<close> follow
  CPython's \<^verbatim>\<open>pathlib\<close>: with \<open>i\<close> the index of the last dot of the name, the suffix is
  \<^verbatim>\<open>name[i:]\<close> and the stem \<^verbatim>\<open>name[:i]\<close> when \<^verbatim>\<open>0 < i < len(name) - 1\<close>, and
  otherwise the suffix is empty and the stem is the whole name.
\<close>

type_synonym path = "string list"

definition path_name :: "path \<Rightarrow> string" where
  "path_name p = (if p = [] then [] else last p)"

definition path_parent :: "path \<Rightarrow> path" where
  "path_parent p = butlast p"

definition rfind :: "char \<Rightarrow> string \<Rightarrow> nat option" where
  "rfind c s =
     (if c \<in> set s
      then Some (length s - 1 - length (takeWhile (\<lambda>x. x \<noteq> c) (rev s)))
      else None)"

definition path_suffix :: "path \<Rightarrow> string" where
  "path_suffix p =
     (let n = path_name p in
      case rfind (CHR ''.'') n of
        None \<Rightarrow> []
      | Some i \<Rightarrow> if 0 < i \<and> i < length n - 1 then drop i n else [])"

definition path_stem :: "path \<Rightarrow> string" where
  "path_stem p =
     (let n = path_name p in
      case rfind (CHR ''.'') n of
        None \<Rightarrow> n
      | Some i \<Rightarrow> if 0 < i \<and> i < length n - 1 then take i n else n)"

text \<open>
  The file system maps a location to what is there: a directory, or a regular file
  with its text. \<open>pyi_calls\<close> logs the argument vectors handed to the packaging
  backend, oldest first.
\<close>

datatype node = Dir | File string

type_synonym fs = "path \<Rightarrow> node option"

record world =
  files :: fs
  pyi_calls :: "string list list"

definition exists :: "world \<Rightarrow> path \<Rightarrow> bool" where
  "exists w p = (files w p \<noteq> None)"

definition is_dir :: "world \<Rightarrow> path \<Rightarrow> bool" where
  "is_dir w p = (files w p = Some Dir)"

subsection \<open>The builder object and its environment\<close>

text \<open>
  \<^verbatim>\<open>version_info\<close> is a dict, either empty (\<open>None\<close>) or holding exactly the four keys
  that \<^verbatim>\<open>set_version_info\<close> writes. An entry of \<^verbatim>\<open>extra_files\<close> is a string or a
  pair of strings.
\<close>

record vinfo =
  version :: string
  company :: string
  description :: string
  copyright :: string

datatype extra = ExtraStr string | ExtraTuple string string

record builder =
  script_path :: path
  output_name :: string
  work_dir :: path
  dependencies :: "string list"
  extra_files :: "extra list"
  icon_path :: "path option"
  version_info :: "vinfo option"
  console :: bool

text \<open>
  What the module takes from outside the repository is a parameter:
  \<^item> \<open>system\<close>: the value of \<^verbatim>\<open>platform.system()\<close>; \<open>pathsep\<close>: \<^verbatim>\<open>os.pathsep\<close>;
  \<^item> \<open>to_path s\<close>: the location of \<^verbatim>\<open>Path(s)\<close>; \<open>to_abs_path s\<close>: that of
    \<^verbatim>\<open>Path(s).absolute()\<close>; \<open>path_str p\<close>: \<^verbatim>\<open>str(p)\<close>;
  \<^item> \<open>tmp_dir\<close>: the directory \<^verbatim>\<open>tempfile.mkdtemp\<close> makes;
  \<^item> \<open>pyinstaller_installed\<close>: whether \<^verbatim>\<open>import PyInstaller.__main__\<close> succeeds;
    \<open>pyinstaller_run\<close>: what \<^verbatim>\<open>pyinstaller.run(args)\<close> does to the file system, and
    the exception it ends with, if any;
  \<^item> \<open>pipreqs_run\<close>: the same for the \<^verbatim>\<open>pipreqs\<close> subprocess run with
    \<^verbatim>\<open>check=True\<close>;
  \<^item> \<open>json_dumps\<close>: the text \<^verbatim>\<open>json.dump\<close> writes for a version dict;
  \<^item> \<open>join_other p s\<close>: the location of \<^verbatim>\<open>p / s\<close> for a string \<open>s\<close> that is not one
    simple component (see \<open>simple_name\<close> below);
  \<^item> \<open>glob_magic\<close>: the result list of \<^verbatim>\<open>Path.glob\<close> for a pattern that is not one
    plain file name (see \<open>plain_name\<close> below).
\<close>

record env =
  system :: string
  pathsep :: string
  to_path :: "string \<Rightarrow> path"
  to_abs_path :: "string \<Rightarrow> path"
  path_str :: "path \<Rightarrow> string"
  tmp_dir :: path
  pyinstaller_installed :: bool
  pyinstaller_run :: "string list \<Rightarrow> fs \<Rightarrow> error option \<times> fs"
  pipreqs_run :: "string list \<Rightarrow> fs \<Rightarrow> error option \<times> fs"
  json_dumps :: "vinfo \<Rightarrow> string"
  join_other :: "path \<Rightarrow> string \<Rightarrow> path"
  glob_magic :: "fs \<Rightarrow> path \<Rightarrow> string \<Rightarrow> error + path list"

text \<open>Python's \<^verbatim>\<open>x or d\<close> on an optional string: \<^verbatim>\<open>None\<close> and \<^verbatim>\<open>""\<close> are falsy.\<close>

definition py_or :: "string option \<Rightarrow> string \<Rightarrow> string" where
  "py_or x d = (case x of None \<Rightarrow> d | Some s \<Rightarrow> if s \<noteq> [] then s else d)"

text \<open>\<^verbatim>\<open>tempfile.mkdtemp\<close>: makes the directory and returns its path.\<close>

definition mkdtemp :: "env \<Rightarrow> world \<Rightarrow> path \<times> world" where
  "mkdtemp E w = (tmp_dir E, w\<lparr>files := (files w)(tmp_dir E \<mapsto> Dir)\<rparr>)"

subsection \<open>Construction and validation\<close>

text \<open>
  \<^verbatim>\<open>_validate_environment\<close> (lines 45 to 55): three checks, each raising at once.
\<close>

definition validate_environment :: "env \<Rightarrow> builder \<Rightarrow> world \<Rightarrow> error + unit" where
  "validate_environment E b w =
     (if \<not> exists w (script_path b) then Inl FileNotFoundError
      else if \<not> path_suffix (script_path b) = ''.py'' then Inl ValueError
      else if system E \<notin> set [''Windows'', ''Linux'', ''Darwin''] then Inl NotImplementedError
      else Inr ())"

text \<open>
  \<^verbatim>\<open>__init__\<close> (lines 24 to 43). \<open>init_fields\<close> is the assignments of lines 35 to 42,
  \<open>init\<close> adds the call of line 43. When validation raises, the constructor raises
  and the caller gets no object; the world is as the assignments left it.
\<close>

definition init_fields ::
  "env \<Rightarrow> string \<Rightarrow> string option \<Rightarrow> string option \<Rightarrow> world \<Rightarrow> builder \<times> world" where
  "init_fields E script_path_arg output_name_arg work_dir_arg w =
     (let sp = to_abs_path E script_path_arg;
          nm = py_or output_name_arg (path_stem sp);
          (wd, w1) = (case work_dir_arg of
                        None \<Rightarrow> mkdtemp E w
                      | Some s \<Rightarrow> if s \<noteq> [] then (to_path E s, w) else mkdtemp E w)
      in (\<lparr>script_path = sp, output_name = nm, work_dir = wd, dependencies = [],
            extra_files = [], icon_path = None, version_info = None, console = True\<rparr>,
          w1))"

definition init ::
  "env \<Rightarrow> string \<Rightarrow> string option \<Rightarrow> string option \<Rightarrow> world \<Rightarrow> (error + builder) \<times> world" where
  "init E script_path_arg output_name_arg work_dir_arg w =
     (let (b, w1) = init_fields E script_path_arg output_name_arg work_dir_arg w in
      case validate_environment E b w1 of
        Inl e \<Rightarrow> (Inl e, w1)
      | Inr _ \<Rightarrow> (Inr b, w1))"

subsection \<open>The fluent setters\<close>

text \<open>Lines 57 to 93. \<^verbatim>\<open>list.extend\<close> appends at the end, keeping duplicates.\<close>

definition add_dependencies :: "builder \<Rightarrow> string list \<Rightarrow> builder" where
  "add_dependencies b packages = b\<lparr>dependencies := dependencies b @ packages\<rparr>"

definition add_data_files :: "builder \<Rightarrow> extra list \<Rightarrow> builder" where
  "add_data_files b fls = b\<lparr>extra_files := extra_files b @ fls\<rparr>"

text \<open>
  \<^verbatim>\<open>set_icon\<close> assigns the attribute on line 71 and tests the file on line 72, so the
  object returned beside the result carries the new path in both cases.
\<close>

definition set_icon :: "env \<Rightarrow> builder \<Rightarrow> string \<Rightarrow> world \<Rightarrow> (error + unit) \<times> builder" where
  "set_icon E b icon_path_arg w =
     (let b1 = b\<lparr>icon_path := Some (to_path E icon_path_arg)\<rparr> in
      if \<not> exists w (to_path E icon_path_arg) then (Inl FileNotFoundError, b1)
      else (Inr (), b1))"

definition set_version_info ::
  "builder \<Rightarrow> string \<Rightarrow> string option \<Rightarrow> string option \<Rightarrow> string option \<Rightarrow> builder" where
  "set_version_info b version_arg company_arg description_arg copyright_arg =
     b\<lparr>version_info := Some
         \<lparr>version = version_arg,
          company = py_or company_arg ''Unknown'',
          description = py_or description_arg (output_name b),
          copyright = py_or copyright_arg
            (''Copyright '' @ [CHR 0xA9] @ '' '' @ py_or company_arg ''Unknown'')\<rparr>\<rparr>"

definition hide_console :: "builder \<Rightarrow> builder" where
  "hide_console b = b\<lparr>console := False\<rparr>"

subsection \<open>Dependency detection\<close>

text \<open>
  Reading a text file: universal newlines turn \<^verbatim>\<open>\r\n\<close> and a lone \<^verbatim>\<open>\r\<close> into
  \<^verbatim>\<open>\n\<close>, and iterating the file yields the lines with their terminator.
\<close>

fun universal_newlines :: "string \<Rightarrow> string" where
  "universal_newlines [] = []"
| "universal_newlines [c] = (if c = CHR 0x0D then [CHR 0x0A] else [c])"
| "universal_newlines (c # d # cs) =
     (if c = CHR 0x0D
      then (if d = CHR 0x0A then CHR 0x0A # universal_newlines cs
            else CHR 0x0A # universal_newlines (d # cs))
      else c # universal_newlines (d # cs))"

fun split_lines :: "string \<Rightarrow> string \<Rightarrow> string list" where
  "split_lines cur [] = (if cur = [] then [] else [cur])"
| "split_lines cur (c # cs) =
     (if c = CHR 0x0A then (cur @ [c]) # split_lines [] cs else split_lines (cur @ [c]) cs)"

definition file_lines :: "string \<Rightarrow> string list" where
  "file_lines txt = split_lines [] (universal_newlines txt)"

text \<open>\<^verbatim>\<open>str.strip()\<close> removes the characters with \<^verbatim>\<open>isspace()\<close> from both ends.\<close>

definition isspace :: "char \<Rightarrow> bool" where
  "isspace c =
     (let n = (of_char c :: nat) in
      (9 \<le> n \<and> n \<le> 13) \<or> (28 \<le> n \<and> n \<le> 32) \<or> n = 133 \<or> n = 160)"

definition strip :: "string \<Rightarrow> string" where
  "strip s = rev (dropWhile isspace (rev (dropWhile isspace s)))"

definition startswith_hash :: "string \<Rightarrow> bool" where
  "startswith_hash s = (case s of [] \<Rightarrow> False | c # _ \<Rightarrow> c = CHR ''#'')"

text \<open>\<^verbatim>\<open>line.split('==')[0]\<close>: the text before the first \<^verbatim>\<open>==\<close>, or all of it.\<close>

fun before_eqeq :: "string \<Rightarrow> string" where
  "before_eqeq [] = []"
| "before_eqeq [c] = [c]"
| "before_eqeq (c # d # cs) =
     (if c = CHR ''='' \<and> d = CHR ''='' then [] else c # before_eqeq (d # cs))"

text \<open>The loop of lines 107 to 110, over the lines still to read.\<close>

fun read_requirements :: "string list \<Rightarrow> string list \<Rightarrow> string list" where
  "read_requirements [] deps = deps"
| "read_requirements (ln # rest) deps =
     (let l = strip ln in
      if l \<noteq> [] \<and> \<not> startswith_hash l
      then read_requirements rest (deps @ [before_eqeq l])
      else read_requirements rest deps)"

text \<open>
  \<^verbatim>\<open>detect_dependencies\<close> (lines 95 to 113). Every exception inside the \<^verbatim>\<open>try\<close> is
  caught and printed, so the method always returns; an exception leaves the
  dependency list as it was, since the loop itself raises nothing.
\<close>

definition detect_dependencies :: "env \<Rightarrow> builder \<Rightarrow> world \<Rightarrow> builder \<times> world" where
  "detect_dependencies E b w =
     (let req_file = work_dir b @ [''requirements.txt''];
          (r, f1) = pipreqs_run E
             [''pipreqs'', ''--savepath'', path_str E req_file,
              path_str E (path_parent (script_path b))] (files w);
          w1 = w\<lparr>files := f1\<rparr>
      in case r of
           Some e \<Rightarrow> (b, w1)
         | None \<Rightarrow>
             (case f1 req_file of
                Some (File txt) \<Rightarrow>
                  (b\<lparr>dependencies := read_requirements (file_lines txt) (dependencies b)\<rparr>, w1)
              | _ \<Rightarrow> (b, w1)))"

subsection \<open>File-system operations used by the build\<close>

text \<open>
  A string is a simple component when \<^verbatim>\<open>p / s\<close> is \<open>p\<close> with the one component \<open>s\<close>
  added: not empty, not \<^verbatim>\<open>.\<close> or \<^verbatim>\<open>..\<close>, and free of separators and of the drive
  colon. It is a plain name when it is moreover free of the glob characters, so
  that as a pattern it matches the entry of that very name and nothing else.
\<close>

definition simple_name :: "string \<Rightarrow> bool" where
  "simple_name s =
     (s \<noteq> [] \<and> s \<noteq> ''.'' \<and> s \<noteq> ''..'' \<and>
      list_all (\<lambda>c. c \<noteq> CHR ''/'' \<and> c \<noteq> CHR 0x5C \<and> c \<noteq> CHR '':'') s)"

definition plain_name :: "string \<Rightarrow> bool" where
  "plain_name s =
     (simple_name s \<and> list_all (\<lambda>c. c \<noteq> CHR ''*'' \<and> c \<noteq> CHR ''?'' \<and> c \<noteq> CHR ''['') s)"

definition pjoin :: "env \<Rightarrow> path \<Rightarrow> string \<Rightarrow> path" where
  "pjoin E p s = (if simple_name s then p @ [s] else join_other E p s)"

text \<open>\<^verbatim>\<open>Path.glob\<close>, as a list in the order the generator yields.\<close>

definition glob :: "env \<Rightarrow> world \<Rightarrow> path \<Rightarrow> string \<Rightarrow> error + path list" where
  "glob E w d pat =
     (if plain_name pat then Inr (if exists w (d @ [pat]) then [d @ [pat]] else [])
      else glob_magic E (files w) d pat)"

text \<open>\<^verbatim>\<open>next(it)\<close> without a default raises \<^verbatim>\<open>StopIteration\<close> on an exhausted iterator.\<close>

definition next_glob :: "env \<Rightarrow> world \<Rightarrow> path \<Rightarrow> string \<Rightarrow> error + path" where
  "next_glob E w d pat =
     (case glob E w d pat of
        Inl e \<Rightarrow> Inl e
      | Inr [] \<Rightarrow> Inl StopIteration
      | Inr (p # _) \<Rightarrow> Inr p)"

text \<open>
  Opening a path for writing needs its parent to be a directory and the path itself
  not to be one. \<^verbatim>\<open>mkdir(exist_ok=True)\<close> accepts a directory that is already there.
\<close>

definition write_text :: "path \<Rightarrow> string \<Rightarrow> fs \<Rightarrow> error + fs" where
  "write_text p txt f =
     (case f (path_parent p) of
        None \<Rightarrow> Inl FileNotFoundError
      | Some (File _) \<Rightarrow> Inl NotADirectoryError
      | Some Dir \<Rightarrow>
          (case f p of
             Some Dir \<Rightarrow> Inl IsADirectoryError
           | _ \<Rightarrow> Inr (f(p \<mapsto> File txt))))"

definition mkdir_exist_ok :: "path \<Rightarrow> fs \<Rightarrow> error + fs" where
  "mkdir_exist_ok p f =
     (case f (path_parent p) of
        None \<Rightarrow> Inl FileNotFoundError
      | Some (File _) \<Rightarrow> Inl NotADirectoryError
      | Some Dir \<Rightarrow>
          (case f p of
             None \<Rightarrow> Inr (f(p \<mapsto> Dir))
           | Some Dir \<Rightarrow> Inr f
           | Some (File _) \<Rightarrow> Inl FileExistsError))"

text \<open>
  \<^verbatim>\<open>shutil.copy2(src, dst)\<close>: into \<open>dst\<close> under the source's base name when \<open>dst\<close> is a
  directory; the same file on both sides is an error; then the source is opened for
  reading and the target for writing.
\<close>

definition copy2 :: "env \<Rightarrow> path \<Rightarrow> path \<Rightarrow> fs \<Rightarrow> error + fs" where
  "copy2 E src dst f =
     (let target = (if f dst = Some Dir then pjoin E dst (path_name src) else dst) in
      if target = src \<and> f src \<noteq> None then Inl SameFileError
      else case f src of
             None \<Rightarrow> Inl FileNotFoundError
           | Some Dir \<Rightarrow> Inl IsADirectoryError
           | Some (File txt) \<Rightarrow> write_text target txt f)"

text \<open>\<^verbatim>\<open>shutil.rmtree\<close>: the directory goes with everything below it.\<close>

definition below :: "path \<Rightarrow> path \<Rightarrow> bool" where
  "below d q = (take (length d) q = d)"

definition rmtree :: "path \<Rightarrow> fs \<Rightarrow> error + fs" where
  "rmtree d f =
     (case f d of
        None \<Rightarrow> Inl FileNotFoundError
      | Some (File _) \<Rightarrow> Inl NotADirectoryError
      | Some Dir \<Rightarrow> Inr (\<lambda>q. if below d q then None else f q))"

subsection \<open>The build pipeline\<close>

text \<open>
  \<^verbatim>\<open>_prepare_build_env\<close> (lines 145 to 157). A step that raises leaves what the
  earlier steps made.
\<close>

definition prepare_build_env :: "env \<Rightarrow> builder \<Rightarrow> world \<Rightarrow> (error + unit) \<times> world" where
  "prepare_build_env E b w =
     (case mkdir_exist_ok (work_dir b @ [''build'']) (files w) of
        Inl e \<Rightarrow> (Inl e, w)
      | Inr f1 \<Rightarrow>
     (case mkdir_exist_ok (work_dir b @ [''dist'']) f1 of
        Inl e \<Rightarrow> (Inl e, w\<lparr>files := f1\<rparr>)
      | Inr f2 \<Rightarrow>
     (case copy2 E (script_path b) (work_dir b) f2 of
        Inl e \<Rightarrow> (Inl e, w\<lparr>files := f2\<rparr>)
      | Inr f3 \<Rightarrow>
     (case (if system E = ''Windows'' then version_info b else None) of
        None \<Rightarrow> (Inr (), w\<lparr>files := f3\<rparr>)
      | Some v \<Rightarrow>
          (case write_text (work_dir b @ [''version_info.txt'']) (json_dumps E v) f3 of
             Inl e \<Rightarrow> (Inl e, w\<lparr>files := f3\<rparr>)
           | Inr f4 \<Rightarrow> (Inr (), w\<lparr>files := f4\<rparr>))))))"

text \<open>
  \<^verbatim>\<open>_find_output_file\<close> (lines 206 to 218): a glob under \<^verbatim>\<open>dist\<close> in one-file mode,
  a path put together from the names in directory mode.
\<close>

definition find_output_file :: "env \<Rightarrow> builder \<Rightarrow> bool \<Rightarrow> world \<Rightarrow> error + path" where
  "find_output_file E b onefile w =
     (let dist_dir = work_dir b @ [''dist''] in
      if onefile then
        (if system E = ''Windows'' then next_glob E w dist_dir (output_name b @ ''.exe'')
         else next_glob E w dist_dir (output_name b))
      else
        (if system E = ''Windows''
         then Inr (pjoin E (pjoin E dist_dir (output_name b)) (output_name b @ ''.exe''))
         else Inr (pjoin E (pjoin E dist_dir (output_name b)) (output_name b))))"

text \<open>The argument vector of lines 166 to 199.\<close>

fun extra_args :: "env \<Rightarrow> extra \<Rightarrow> string list" where
  "extra_args E (ExtraTuple src dest) = [''--add-data'', src @ pathsep E @ dest]"
| "extra_args E (ExtraStr fl) = [''--add-data'', fl @ pathsep E @ ''.'']"

definition pyinstaller_args :: "env \<Rightarrow> builder \<Rightarrow> bool \<Rightarrow> string list" where
  "pyinstaller_args E b onefile =
     [path_str E (pjoin E (work_dir b) (path_name (script_path b))),
      ''--name'', output_name b,
      ''--workpath'', path_str E (work_dir b @ [''build'']),
      ''--distpath'', path_str E (work_dir b @ [''dist'']),
      ''--specpath'', path_str E (work_dir b),
      ''--add-data'', path_str E (path_parent (script_path b)) @ pathsep E @ ''.'']
     @ (if onefile then [''--onefile''] else [])
     @ (if \<not> console b then [''--windowed''] else [])
     @ (case icon_path b of None \<Rightarrow> [] | Some ic \<Rightarrow> [''--icon'', path_str E ic])
     @ (case version_info b of
          None \<Rightarrow> []
        | Some _ \<Rightarrow> [''--version-file'', path_str E (work_dir b @ [''version_info.txt''])])
     @ concat (map (\<lambda>dep. [''--hidden-import'', dep]) (dependencies b))
     @ concat (map (extra_args E) (extra_files b))"

text \<open>\<^verbatim>\<open>_build_with_pyinstaller\<close> (lines 159 to 204).\<close>

definition build_with_pyinstaller ::
  "env \<Rightarrow> builder \<Rightarrow> bool \<Rightarrow> world \<Rightarrow> (error + path) \<times> world" where
  "build_with_pyinstaller E b onefile w =
     (if \<not> pyinstaller_installed E then (Inl RuntimeError, w)
      else
        let args = pyinstaller_args E b onefile;
            (r, f1) = pyinstaller_run E args (files w);
            w1 = w\<lparr>files := f1, pyi_calls := pyi_calls w @ [args]\<rparr>
        in case r of
             Some e \<Rightarrow> (Inl e, w1)
           | None \<Rightarrow> (find_output_file E b onefile w1, w1))"

text \<open>\<^verbatim>\<open>_cleanup\<close> (lines 220 to 223).\<close>

definition cleanup :: "builder \<Rightarrow> world \<Rightarrow> (error + unit) \<times> world" where
  "cleanup b w =
     (if exists w (work_dir b)
      then (case rmtree (work_dir b) (files w) of
              Inl e \<Rightarrow> (Inl e, w)
            | Inr f1 \<Rightarrow> (Inr (), w\<lparr>files := f1\<rparr>))
      else (Inr (), w))"

text \<open>
  \<^verbatim>\<open>build\<close> (lines 115 to 143). The class defines no method \<^verbatim>\<open>_build_with_linux\<close>
  and no method \<^verbatim>\<open>_build_with_mac\<close>, and it has no base class and no
  \<^verbatim>\<open>__getattr__\<close>, so looking either up on \<^verbatim>\<open>self\<close> raises \<^verbatim>\<open>AttributeError\<close>.
\<close>

definition build :: "env \<Rightarrow> builder \<Rightarrow> bool \<Rightarrow> bool \<Rightarrow> world \<Rightarrow> (error + path) \<times> world" where
  "build E b onefile clean w =
     (case prepare_build_env E b w of
        (Inl e, w1) \<Rightarrow> (Inl e, w1)
      | (Inr _, w1) \<Rightarrow>
          (case (if system E = ''Windows'' then build_with_pyinstaller E b onefile w1
                 else if system E = ''Linux'' then (Inl (AttributeError ''_build_with_linux''), w1)
                 else if system E = ''Darwin'' then (Inl (AttributeError ''_build_with_mac''), w1)
                 else (Inl NotImplementedError, w1)) of
             (Inl e, w2) \<Rightarrow> (Inl e, w2)
           | (Inr output_path, w2) \<Rightarrow>
               if clean then
                 (case cleanup b w2 of
                    (Inl e, w3) \<Rightarrow> (Inl e, w3)
                  | (Inr _, w3) \<Rightarrow> (Inr output_path, w3))
               else (Inr output_path, w2)))"

text \<open>\<^verbatim>\<open>quick_build\<close> (lines 225 to 233).\<close>

definition quick_build ::
  "env \<Rightarrow> string \<Rightarrow> string option \<Rightarrow> bool \<Rightarrow> world \<Rightarrow> (error + path) \<times> world" where
  "quick_build E script_path_arg output_name_arg onefile w =
     (case init E script_path_arg output_name_arg None w of
        (Inl e, w1) \<Rightarrow> (Inl e, w1)
      | (Inr b, w1) \<Rightarrow>
          (let (b1, w2) = detect_dependencies E b w1 in build E b1 onefile True w2))"

subsection \<open>Sequences of method calls\<close>

text \<open>
  A caller holds one object and calls its methods one after the other. A call that
  raises leaves the object and the world as the method left them, and the caller may
  go on. \<^verbatim>\<open>build\<close> assigns no attribute of \<^verbatim>\<open>self\<close>.
\<close>

datatype call =
    AddDependencies "string list"
  | AddDataFiles "extra list"
  | SetIcon string
  | SetVersionInfo string "string option" "string option" "string option"
  | HideConsole
  | DetectDependencies
  | Build bool bool

fun perform :: "env \<Rightarrow> builder \<times> world \<Rightarrow> call \<Rightarrow> builder \<times> world" where
  "perform E (b, w) (AddDependencies packages) = (add_dependencies b packages, w)"
| "perform E (b, w) (AddDataFiles fls) = (add_data_files b fls, w)"
| "perform E (b, w) (SetIcon s) = (snd (set_icon E b s w), w)"
| "perform E (b, w) (SetVersionInfo v c d r) = (set_version_info b v c d r, w)"
| "perform E (b, w) HideConsole = (hide_console b, w)"
| "perform E (b, w) DetectDependencies = detect_dependencies E b w"
| "perform E (b, w) (Build onefile clean) = (b, snd (build E b onefile clean w))"

subsection \<open>A concrete environment\<close>

text \<open>
  A POSIX-like reading of the parameters, for running the model on examples: a path
  string is cut at the slashes and printed back with them, the tools do nothing and
  succeed, and a small file system holds the script \<^verbatim>\<open>/home/app.py\<close> and an empty
  directory \<^verbatim>\<open>/work\<close>.
\<close>

fun split_slash :: "string \<Rightarrow> string \<Rightarrow> path" where
  "split_slash cur [] = (if cur = [] then [] else [cur])"
| "split_slash cur (c # cs) =
     (if c = CHR ''/'' then (if cur = [] then split_slash [] cs else cur # split_slash [] cs)
      else split_slash (cur @ [c]) cs)"

definition example_env :: "string \<Rightarrow> env" where
  "example_env sys =
     \<lparr>system = sys, pathsep = (if sys = ''Windows'' then '';'' else '':''),
      to_path = split_slash [], to_abs_path = split_slash [],
      path_str = (\<lambda>p. concat (map ((@) ''/'') p)),
      tmp_dir = [''tmp'', ''py2exe_a1''],
      pyinstaller_installed = True,
      pyinstaller_run = (\<lambda>args f. (None, f)),
      pipreqs_run = (\<lambda>args f. (None, f)),
      json_dumps = version,
      join_other = (\<lambda>p s. p @ split_slash [] s),
      glob_magic = (\<lambda>f d pat. Inr [])\<rparr>"

definition example_world :: world where
  "example_world =
     \<lparr>files = [[] \<mapsto> Dir, [''tmp''] \<mapsto> Dir, [''home''] \<mapsto> Dir,
               [''home'', ''app.py''] \<mapsto> File ''print(1)'', [''work''] \<mapsto> Dir],
      pyi_calls = []\<rparr>"

definition example_builder :: builder where
  "example_builder =
     \<lparr>script_path = [''home'', ''app.py''], output_name = ''app'', work_dir = [''work''],
      dependencies = [], extra_files = [], icon_path = None, version_info = None,
      console = True\<rparr>"

text \<open>The manifest \<^verbatim>\<open>requests==2.31.0\n# comment\n\nnumpy\<close>.\<close>

definition example_manifest :: string where
  "example_manifest =
     ''requests==2.31.0'' @ [CHR 0x0A] @ ''# comment'' @ [CHR 0x0A, CHR 0x0A] @ ''numpy''"

section \<open>Properties\<close>

subsection \<open>Helper facts\<close>

lemma path_stem_nonempty: "path_suffix p = ''.py'' \<Longrightarrow> path_stem p \<noteq> []"
  by (auto simp: path_suffix_def path_stem_def Let_def split: option.splits if_splits)

lemma py_or_nonempty: "d \<noteq> [] \<Longrightarrow> py_or x d \<noteq> []"
  by (simp add: py_or_def split: option.splits)

lemma example_env_simps:
  "system (example_env sys) = sys"
  "pyinstaller_installed (example_env sys)"
  "pyinstaller_run (example_env sys) = (\<lambda>args f. (None, f))"
  "join_other (example_env sys) = (\<lambda>p s. p @ split_slash [] s)"
  "tmp_dir (example_env sys) = [''tmp'', ''py2exe_a1'']"
  by (simp_all add: example_env_def)

lemma example_builder_simps:
  "work_dir example_builder = [''work'']"
  "output_name example_builder = ''app''"
  "script_path example_builder = [''home'', ''app.py'']"
  by (simp_all add: example_builder_def)

lemma example_world_simps:
  "files example_world = [[] \<mapsto> Dir, [''tmp''] \<mapsto> Dir, [''home''] \<mapsto> Dir,
               [''home'', ''app.py''] \<mapsto> File ''print(1)'', [''work''] \<mapsto> Dir]"
  "pyi_calls example_world = []"
  by (simp_all add: example_world_def)

lemma example_init:
  "init (example_env ''Windows'') ''/home/app.py'' None (Some ''/work'') example_world =
     (Inr example_builder, example_world)"
  by (simp add: init_def init_fields_def validate_environment_def exists_def example_env_def
      example_world_def example_builder_def py_or_def path_stem_def path_suffix_def
      path_name_def rfind_def Let_def)

lemma example_prepare:
  "prepare_build_env (example_env sys) example_builder example_world =
     (Inr (), example_world\<lparr>files := (files example_world)
        ([''work'', ''build''] \<mapsto> Dir, [''work'', ''dist''] \<mapsto> Dir,
         [''work'', ''app.py''] \<mapsto> File ''print(1)'')\<rparr>)"
  by (simp add: prepare_build_env_def mkdir_exist_ok_def copy2_def write_text_def pjoin_def
      simple_name_def path_name_def path_parent_def example_env_def example_builder_def
      example_world_def)


lemma example_prepare_icon:
  "prepare_build_env (example_env sys)
     (example_builder\<lparr>icon_path := Some [''no'', ''icon.ico'']\<rparr>) example_world =
     (Inr (), example_world\<lparr>files := (files example_world)
        ([''work'', ''build''] \<mapsto> Dir, [''work'', ''dist''] \<mapsto> Dir,
         [''work'', ''app.py''] \<mapsto> File ''print(1)'')\<rparr>)"
  by (simp add: prepare_build_env_def mkdir_exist_ok_def copy2_def write_text_def pjoin_def
      simple_name_def path_name_def path_parent_def example_env_def example_builder_def
      example_world_def)








lemma prepare_pyi_calls: "pyi_calls (snd (prepare_build_env E b w)) = pyi_calls w"
  by (simp add: prepare_build_env_def split: sum.splits option.splits)







text \<open>On a Linux or macOS host a build that got past the preparation ends in the
  failed method lookup, whatever the request.\<close>

lemma build_linux_mac:
  assumes "prepare_build_env E b w = (Inr (), w1)"
  shows "system E = ''Linux'' \<Longrightarrow>
           build E b onefile clean w = (Inl (AttributeError ''_build_with_linux''), w1)"
    and "system E = ''Darwin'' \<Longrightarrow>
           build E b onefile clean w = (Inl (AttributeError ''_build_with_mac''), w1)"
  using assms by (simp_all add: build_def)

text \<open>On Windows a build that reaches the backend logs exactly one call.\<close>

lemma build_pyi_calls:
  assumes "system E = ''Windows''" "pyinstaller_installed E"
    and "fst (prepare_build_env E b w) = Inr ()"
  shows "pyi_calls (snd (build E b onefile clean w)) = pyi_calls w @ [pyinstaller_args E b onefile]"
proof -
  obtain r w1 where p: "prepare_build_env E b w = (r, w1)" by (cases "prepare_build_env E b w")
  with assms have r: "r = Inr ()" by simp
  from p have c: "pyi_calls w1 = pyi_calls w" using prepare_pyi_calls [of E b w] by simp
  show ?thesis using assms p r c
    by (auto simp: build_def build_with_pyinstaller_def cleanup_def Let_def
        split: prod.splits sum.splits option.splits if_splits)
qed

lemma pyinstaller_args_icon:
  assumes "icon_path b = Some p"
  shows "\<exists>pre post. pyinstaller_args E b onefile = pre @ [''--icon'', path_str E p] @ post"
proof -
  have "pyinstaller_args E b onefile =
     ([path_str E (pjoin E (work_dir b) (path_name (script_path b))),
      ''--name'', output_name b,
      ''--workpath'', path_str E (work_dir b @ [''build'']),
      ''--distpath'', path_str E (work_dir b @ [''dist'']),
      ''--specpath'', path_str E (work_dir b),
      ''--add-data'', path_str E (path_parent (script_path b)) @ pathsep E @ ''.'']
     @ (if onefile then [''--onefile''] else [])
     @ (if \<not> console b then [''--windowed''] else []))
     @ [''--icon'', path_str E p]
     @ ((case version_info b of
          None \<Rightarrow> []
        | Some _ \<Rightarrow> [''--version-file'', path_str E (work_dir b @ [''version_info.txt''])])
     @ concat (map (\<lambda>dep. [''--hidden-import'', dep]) (dependencies b))
     @ concat (map (extra_args E) (extra_files b)))"
    using assms by (simp add: pyinstaller_args_def)
  then show ?thesis by blast
qed

text \<open>The constructor of a validated object left a non-empty output name, and no
  method assigns the attribute.\<close>

lemma init_output_name_nonempty:
  assumes "init E script_path_arg output_name_arg work_dir_arg w = (Inr b, w1)"
  shows "output_name b \<noteq> []"
proof -
  obtain b0 w0 where f: "init_fields E script_path_arg output_name_arg work_dir_arg w = (b0, w0)"
    by (cases "init_fields E script_path_arg output_name_arg work_dir_arg w")
  from assms f have b: "b = b0" and v: "validate_environment E b0 w0 = Inr ()"
    by (auto simp: init_def split: sum.splits)
  from v have "path_suffix (script_path b0) = ''.py''"
    by (auto simp: validate_environment_def split: if_splits)
  then have "path_stem (script_path b0) \<noteq> []" by (rule path_stem_nonempty)
  moreover from f have "output_name b0 = py_or output_name_arg (path_stem (script_path b0))"
    by (auto simp: init_fields_def Let_def split: prod.splits)
  ultimately show ?thesis using b by (simp add: py_or_nonempty)
qed

lemma perform_output_name: "output_name (fst (perform E s c)) = output_name (fst s)"
proof (cases s)
  case (Pair b w)
  then show ?thesis
    by (cases c)
       (auto simp: add_dependencies_def add_data_files_def set_icon_def set_version_info_def
          hide_console_def detect_dependencies_def Let_def
          split: prod.splits option.splits node.splits if_splits)
qed

lemma foldl_perform_output_name:
  "output_name (fst (foldl (perform E) s cs)) = output_name (fst s)"
  by (induction cs arbitrary: s) (simp_all add: perform_output_name)

text \<open>The loop of \<^verbatim>\<open>detect_dependencies\<close> as a map over the kept lines.\<close>

lemma read_requirements_eq:
  "read_requirements lns deps =
     deps @ map before_eqeq (filter (\<lambda>l. l \<noteq> [] \<and> \<not> startswith_hash l) (map strip lns))"
  by (induction lns arbitrary: deps) (simp_all add: Let_def)

lemma example_manifest_names:
  "map before_eqeq
     (filter (\<lambda>l. l \<noteq> [] \<and> \<not> startswith_hash l) (map strip (file_lines example_manifest))) =
   [''requests'', ''numpy'']"
  by (simp add: example_manifest_def file_lines_def strip_def isspace_def startswith_hash_def)









lemma example_init_fields_missing:
  "init_fields (example_env ''Plan9'') ''/home/nope.txt'' None (Some ''/work'') example_world =
     (\<lparr>script_path = [''home'', ''nope.txt''], output_name = ''nope'', work_dir = [''work''],
       dependencies = [], extra_files = [], icon_path = None, version_info = None,
       console = True\<rparr>, example_world)"
  by (simp add: init_fields_def example_env_def py_or_def path_stem_def path_name_def rfind_def)

subsection \<open>Construction\<close>

text \<open>
  C5. Validation runs inside the constructor and makes exactly three checks in this
  order: the script exists (else FileNotFoundError), its suffix is \<^verbatim>\<open>.py\<close> (else
  ValueError), the host system is Windows, Linux or Darwin (else
  NotImplementedError). An earlier failing check hides the later ones, so a script
  that is missing and wrongly suffixed gives FileNotFoundError.
\<close>

theorem validation_order:
  assumes "init_fields E script_path_arg output_name_arg work_dir_arg w = (b, w1)"
  shows "init E script_path_arg output_name_arg work_dir_arg w =
           (if \<not> exists w1 (script_path b) then Inl FileNotFoundError
            else if path_suffix (script_path b) \<noteq> ''.py'' then Inl ValueError
            else if system E \<noteq> ''Windows'' \<and> system E \<noteq> ''Linux'' \<and> system E \<noteq> ''Darwin''
              then Inl NotImplementedError
            else Inr b, w1)"
  using assms by (simp add: init_def validate_environment_def)

text \<open>
  The script \<^verbatim>\<open>/home/nope.txt\<close> is missing, wrongly suffixed, and the host is
  unsupported: the first check decides.
\<close>

theorem validation_order_witness:
  "init_fields (example_env ''Plan9'') ''/home/nope.txt'' None (Some ''/work'') example_world =
     (\<lparr>script_path = [''home'', ''nope.txt''], output_name = ''nope'', work_dir = [''work''],
       dependencies = [], extra_files = [], icon_path = None, version_info = None,
       console = True\<rparr>, example_world)
   \<and> init (example_env ''Plan9'') ''/home/nope.txt'' None (Some ''/work'') example_world =
       (Inl FileNotFoundError, example_world)"
  using validation_order [OF example_init_fields_missing] example_init_fields_missing
  by (simp add: exists_def example_world_def)

text \<open>
  C10. Passing the empty string as \<^verbatim>\<open>output_name\<close> is the same as passing none: the
  constructor gives the same result and the same world, the attribute is set to the
  stem of the script's file name, and on a script that passes validation both calls
  return the same object, named after that stem.
\<close>

theorem init_empty_output_name_falls_back:
  "init E script_path_arg (Some []) work_dir_arg w = init E script_path_arg None work_dir_arg w
   \<and> output_name (fst (init_fields E script_path_arg (Some []) work_dir_arg w)) =
       path_stem (to_abs_path E script_path_arg)
   \<and> (\<forall>b w1. init E script_path_arg (Some []) work_dir_arg w = (Inr b, w1) \<longrightarrow>
         output_name b = path_stem (to_abs_path E script_path_arg))
   \<and> (exists (snd (init_fields E script_path_arg (Some []) work_dir_arg w))
          (to_abs_path E script_path_arg)
        \<and> path_suffix (to_abs_path E script_path_arg) = ''.py''
        \<and> system E \<in> set [''Windows'', ''Linux'', ''Darwin''] \<longrightarrow>
        (\<exists>b. fst (init E script_path_arg (Some []) work_dir_arg w) = Inr b
           \<and> fst (init E script_path_arg None work_dir_arg w) = Inr b
           \<and> output_name b = path_stem (to_abs_path E script_path_arg)))"
  by (auto simp: init_def init_fields_def validate_environment_def py_or_def Let_def
      split: option.splits prod.splits sum.splits if_splits)

text \<open>On \<^verbatim>\<open>/home/app.py\<close> both calls return the object named \<^verbatim>\<open>app\<close>.\<close>

theorem init_empty_output_name_falls_back_witness:
  "init (example_env ''Windows'') ''/home/app.py'' (Some []) (Some ''/work'') example_world =
     (Inr example_builder, example_world)
   \<and> init (example_env ''Windows'') ''/home/app.py'' None (Some ''/work'') example_world =
     (Inr example_builder, example_world)
   \<and> output_name example_builder = ''app''
   \<and> path_stem (to_abs_path (example_env ''Windows'') ''/home/app.py'') = ''app''"
proof -
  have s: "path_stem (to_abs_path (example_env ''Windows'') ''/home/app.py'') = ''app''"
    by (simp add: example_env_def path_stem_def path_name_def rfind_def)
  from init_empty_output_name_falls_back
    [of "example_env ''Windows''" "''/home/app.py''" "Some ''/work''" example_world]
  have "init (example_env ''Windows'') ''/home/app.py'' (Some []) (Some ''/work'') example_world =
     init (example_env ''Windows'') ''/home/app.py'' None (Some ''/work'') example_world"
    by blast
  with example_init s show ?thesis by (simp add: example_builder_simps)
qed

text \<open>
  C1, as the code has it. A constructor call on a missing script raises
  FileNotFoundError. With a non-empty \<^verbatim>\<open>work_dir\<close> argument the call leaves the file
  system as it was: it creates no directory. With \<^verbatim>\<open>work_dir\<close> omitted or empty,
  \<^verbatim>\<open>mkdtemp\<close> has made the scratch directory before validation runs, and the
  directory is still there after the failure.
\<close>

theorem missing_script_fails_work_dir:
  assumes "\<not> exists w (to_abs_path E script_path_arg)"
    and "to_abs_path E script_path_arg \<noteq> tmp_dir E"
  shows "fst (init E script_path_arg output_name_arg work_dir_arg w) = Inl FileNotFoundError
    \<and> ((\<exists>d. work_dir_arg = Some d \<and> d \<noteq> []) \<longrightarrow>
          snd (init E script_path_arg output_name_arg work_dir_arg w) = w)
    \<and> (work_dir_arg = None \<or> work_dir_arg = Some [] \<longrightarrow>
          work_dir (fst (init_fields E script_path_arg output_name_arg work_dir_arg w)) = tmp_dir E
          \<and> is_dir (snd (init E script_path_arg output_name_arg work_dir_arg w)) (tmp_dir E))"
  using assms
  by (auto simp: init_def init_fields_def validate_environment_def mkdtemp_def exists_def
      is_dir_def Let_def split: option.splits)

text \<open>Both cases on the missing script \<^verbatim>\<open>/home/nope.py\<close>.\<close>

theorem missing_script_fails_work_dir_witness:
  "\<not> exists example_world (to_abs_path (example_env ''Linux'') ''/home/nope.py'')
   \<and> init (example_env ''Linux'') ''/home/nope.py'' None (Some ''/work'') example_world =
       (Inl FileNotFoundError, example_world)
   \<and> fst (init (example_env ''Linux'') ''/home/nope.py'' None None example_world) =
       Inl FileNotFoundError
   \<and> is_dir (snd (init (example_env ''Linux'') ''/home/nope.py'' None None example_world))
       [''tmp'', ''py2exe_a1'']"
proof -
  have h: "\<not> exists example_world (to_abs_path (example_env ''Linux'') ''/home/nope.py'')"
    "to_abs_path (example_env ''Linux'') ''/home/nope.py'' \<noteq> tmp_dir (example_env ''Linux'')"
    by (simp_all add: exists_def example_world_def example_env_def)
  from missing_script_fails_work_dir [OF h, of None "Some ''/work''"]
    missing_script_fails_work_dir [OF h, of None None]
  show ?thesis using h(1) by (simp add: example_env_simps prod_eq_iff)
qed

text \<open>
  The claim as the spec states it fails when \<^verbatim>\<open>work_dir\<close> is left out: the scratch
  directory did not exist before the failed constructor call and exists after it.
\<close>

theorem missing_script_default_work_dir_counterexample:
  "fst (init (example_env ''Linux'') ''/home/nope.py'' None None example_world) =
     Inl FileNotFoundError
   \<and> \<not> exists example_world
         (work_dir (fst (init_fields (example_env ''Linux'') ''/home/nope.py'' None None
            example_world)))
   \<and> exists (snd (init (example_env ''Linux'') ''/home/nope.py'' None None example_world))
         (work_dir (fst (init_fields (example_env ''Linux'') ''/home/nope.py'' None None
            example_world)))"
  by (simp add: init_def init_fields_def validate_environment_def mkdtemp_def exists_def
      example_env_def example_world_def py_or_def Let_def)

text \<open>
  C8. The object a successful constructor call returns has a non-empty output name,
  given or derived from the script's stem, and it stays non-empty through any
  sequence of calls of \<^verbatim>\<open>add_dependencies\<close>, \<^verbatim>\<open>add_data_files\<close>, \<^verbatim>\<open>set_icon\<close>,
  \<^verbatim>\<open>set_version_info\<close>, \<^verbatim>\<open>hide_console\<close>, \<^verbatim>\<open>detect_dependencies\<close> and
  \<^verbatim>\<open>build\<close>, whether they return or raise.
\<close>

theorem output_name_never_empty:
  assumes "init E script_path_arg output_name_arg work_dir_arg w = (Inr b, w1)"
  shows "output_name (fst (foldl (perform E) (b, w1) calls)) \<noteq> []"
  using init_output_name_nonempty [OF assms] by (simp add: foldl_perform_output_name)

theorem output_name_never_empty_witness:
  "init (example_env ''Windows'') ''/home/app.py'' None (Some ''/work'') example_world =
     (Inr example_builder, example_world)
   \<and> output_name (fst (foldl (perform (example_env ''Windows'')) (example_builder, example_world)
        [SetIcon ''/no/icon.ico'', SetVersionInfo ''1.0'' None None None, DetectDependencies,
         Build True True])) \<noteq> []"
  using output_name_never_empty [OF example_init,
      of "[SetIcon ''/no/icon.ico'', SetVersionInfo ''1.0'' None None None, DetectDependencies,
         Build True True]"] example_init by blast


subsection \<open>Setters\<close>

text \<open>
  C7. \<^verbatim>\<open>set_version_info("1.0")\<close> with no company, description or copyright stores
  company \<^verbatim>\<open>Unknown\<close>, the output name as description, and the copyright line made
  from the company default.
\<close>

theorem set_version_info_defaults:
  "version_info (set_version_info b ''1.0'' None None None) =
     Some \<lparr>version = ''1.0'', company = ''Unknown'', description = output_name b,
           copyright = ''Copyright '' @ [CHR 0xA9] @ '' Unknown''\<rparr>"
  by (simp add: set_version_info_def py_or_def)

subsection \<open>The icon setter\<close>

text \<open>
  C9. \<^verbatim>\<open>set_icon\<close> on a path that does not exist raises FileNotFoundError and
  leaves the path in \<^verbatim>\<open>icon_path\<close>. A later build of that object which reaches the
  backend (Windows host, PyInstaller importable, preparation done) hands it
  \<^verbatim>\<open>--icon\<close> followed by that path.
\<close>

theorem set_icon_not_atomic:
  assumes "\<not> exists w (to_path E s)"
  shows "set_icon E b s w = (Inl FileNotFoundError, b\<lparr>icon_path := Some (to_path E s)\<rparr>)
    \<and> (system E = ''Windows'' \<and> pyinstaller_installed E
        \<and> fst (prepare_build_env E (snd (set_icon E b s w)) w') = Inr () \<longrightarrow>
        (\<exists>pre post. pyi_calls (snd (build E (snd (set_icon E b s w)) onefile clean w')) =
           pyi_calls w' @ [pre @ [''--icon'', path_str E (to_path E s)] @ post]))"
proof (intro conjI impI)
  show s: "set_icon E b s w = (Inl FileNotFoundError, b\<lparr>icon_path := Some (to_path E s)\<rparr>)"
    using assms by (simp add: set_icon_def)
  assume a: "system E = ''Windows'' \<and> pyinstaller_installed E
        \<and> fst (prepare_build_env E (snd (set_icon E b s w)) w') = Inr ()"
  have "icon_path (snd (set_icon E b s w)) = Some (to_path E s)" by (simp add: s)
  from pyinstaller_args_icon [OF this, of E onefile]
    build_pyi_calls [of E "snd (set_icon E b s w)" w' onefile clean] a
  show "\<exists>pre post. pyi_calls (snd (build E (snd (set_icon E b s w)) onefile clean w')) =
           pyi_calls w' @ [pre @ [''--icon'', path_str E (to_path E s)] @ post]"
    by auto
qed

theorem set_icon_not_atomic_witness:
  "\<not> exists example_world (to_path (example_env ''Windows'') ''/no/icon.ico'')
   \<and> set_icon (example_env ''Windows'') example_builder ''/no/icon.ico'' example_world =
       (Inl FileNotFoundError, example_builder\<lparr>icon_path := Some [''no'', ''icon.ico'']\<rparr>)
   \<and> (\<exists>pre post. pyi_calls (snd (build (example_env ''Windows'')
          (example_builder\<lparr>icon_path := Some [''no'', ''icon.ico'']\<rparr>) True False
          example_world)) =
        [pre @ [''--icon'', ''/no/icon.ico''] @ post])"
proof -
  have h: "\<not> exists example_world (to_path (example_env ''Windows'') ''/no/icon.ico'')"
    by (simp add: exists_def example_world_def example_env_def)
  have t: "to_path (example_env ''Windows'') ''/no/icon.ico'' = [''no'', ''icon.ico'']"
    by (simp add: example_env_def)
  have e: "system (example_env ''Windows'') = ''Windows''
     \<and> pyinstaller_installed (example_env ''Windows'')
     \<and> path_str (example_env ''Windows'') [''no'', ''icon.ico''] = ''/no/icon.ico''"
    by (simp add: example_env_def)
  note r = set_icon_not_atomic [OF h, of example_builder example_world True False]
  from r have s:
    "set_icon (example_env ''Windows'') example_builder ''/no/icon.ico'' example_world =
       (Inl FileNotFoundError, example_builder\<lparr>icon_path := Some [''no'', ''icon.ico'']\<rparr>)"
    by (simp add: t)
  from r have "\<exists>pre post. pyi_calls (snd (build (example_env ''Windows'')
          (example_builder\<lparr>icon_path := Some [''no'', ''icon.ico'']\<rparr>) True False
          example_world)) =
        [pre @ [''--icon'', ''/no/icon.ico''] @ post]"
    unfolding s by (simp add: t e example_world_simps example_prepare_icon)
  with h s show ?thesis by blast
qed

subsection \<open>Dependency detection\<close>

text \<open>
  C6. When the analyzer succeeds and leaves a manifest, \<^verbatim>\<open>detect_dependencies\<close>
  appends to the dependency list, in manifest order, the text before \<^verbatim>\<open>==\<close> of each
  line that, once stripped, is neither empty nor starts with \<^verbatim>\<open>#\<close>. The manifest
  \<^verbatim>\<open>requests==2.31.0\n# comment\n\nnumpy\<close> gives \<^verbatim>\<open>requests\<close>, \<^verbatim>\<open>numpy\<close>.
\<close>

theorem detect_dependencies_parses_manifest:
  assumes "pipreqs_run E
             [''pipreqs'', ''--savepath'', path_str E (work_dir b @ [''requirements.txt'']),
              path_str E (path_parent (script_path b))] (files w) = (None, f1)"
    and "f1 (work_dir b @ [''requirements.txt'']) = Some (File txt)"
  shows "dependencies (fst (detect_dependencies E b w)) =
           dependencies b @ map before_eqeq
             (filter (\<lambda>l. l \<noteq> [] \<and> \<not> startswith_hash l) (map strip (file_lines txt)))"
  using assms by (simp add: detect_dependencies_def read_requirements_eq)

theorem detect_dependencies_parses_manifest_witness:
  "dependencies (fst (detect_dependencies
      ((example_env ''Linux'')\<lparr>pipreqs_run :=
         (\<lambda>args f. (None, f([''work'', ''requirements.txt''] \<mapsto> File example_manifest)))\<rparr>)
      example_builder example_world)) = [''requests'', ''numpy'']"
  using detect_dependencies_parses_manifest [of
      "(example_env ''Linux'')\<lparr>pipreqs_run :=
         (\<lambda>args f. (None, f([''work'', ''requirements.txt''] \<mapsto> File example_manifest)))\<rparr>"
      example_builder example_world
      "(files example_world)([''work'', ''requirements.txt''] \<mapsto> File example_manifest)"
      example_manifest]
  by (simp add: example_manifest_names example_builder_def)

subsection \<open>Locating the artifact\<close>

text \<open>
  The two branches of \<^verbatim>\<open>_find_output_file\<close>. In one-file mode, for a plain file
  name, the glob is a lookup of \<^verbatim>\<open>dist/name\<close> that raises StopIteration when the
  entry is missing. In directory mode nothing is looked up.
\<close>

lemma find_output_file_onefile_plain:
  "plain_name (output_name b @ (if system E = ''Windows'' then ''.exe'' else [])) \<Longrightarrow>
     find_output_file E b True w =
       (if exists w (work_dir b @
              [''dist'', output_name b @ (if system E = ''Windows'' then ''.exe'' else [])])
        then Inr (work_dir b @
              [''dist'', output_name b @ (if system E = ''Windows'' then ''.exe'' else [])])
        else Inl StopIteration)"
  by (cases "system E = ''Windows''")
     (simp_all add: find_output_file_def next_glob_def glob_def Let_def)

lemma find_output_file_directory_mode:
  "find_output_file E b False w =
     Inr (pjoin E (pjoin E (work_dir b @ [''dist'']) (output_name b))
            (output_name b @ (if system E = ''Windows'' then ''.exe'' else [])))"
  by (simp add: find_output_file_def)

text \<open>
  C3. The claim wants the locator to fail with ArtifactNotFound in both modes when
  nothing matches, and never to return a path to a file that is not there. The
  one-file branch does fail; the directory branch does not. On Windows, with a backend
  run that wrote nothing, the locator in directory mode returns
  \<^verbatim>\<open>/work/dist/app/app.exe\<close>, \<^verbatim>\<open>build(onefile=False, clean=False)\<close> returns that
  path, and nothing exists there; the one-file locator and build on the same world
  raise StopIteration.
\<close>

theorem directory_mode_returns_missing_path:
  "find_output_file (example_env ''Windows'') example_builder False example_world =
     Inr [''work'', ''dist'', ''app'', ''app.exe'']
   \<and> \<not> exists example_world [''work'', ''dist'', ''app'', ''app.exe'']
   \<and> find_output_file (example_env ''Windows'') example_builder True example_world =
       Inl StopIteration
   \<and> fst (build (example_env ''Windows'') example_builder False False example_world) =
       Inr [''work'', ''dist'', ''app'', ''app.exe'']
   \<and> \<not> exists (snd (build (example_env ''Windows'') example_builder False False example_world))
         [''work'', ''dist'', ''app'', ''app.exe'']
   \<and> fst (build (example_env ''Windows'') example_builder True False example_world) =
       Inl StopIteration"
  by (simp add: build_def example_prepare build_with_pyinstaller_def find_output_file_def
      next_glob_def glob_def plain_name_def exists_def pjoin_def simple_name_def Let_def
      example_env_simps example_builder_simps example_world_simps)

subsection \<open>The build\<close>

text \<open>
  C2. The claim wants a Linux and a macOS strategy that invoke the backend and return
  the artifact path. The code has the Windows one only: on a Linux host and on a
  macOS host, \<^verbatim>\<open>build\<close> on a valid request prepares the workspace and then raises
  AttributeError, since the method it calls does not exist.
\<close>

theorem build_on_linux_raises_attribute_error:
  "fst (build (example_env ''Linux'') example_builder True True example_world) =
     Inl (AttributeError ''_build_with_linux'')
   \<and> fst (build (example_env ''Darwin'') example_builder True True example_world) =
     Inl (AttributeError ''_build_with_mac'')
   \<and> pyi_calls (snd (build (example_env ''Linux'') example_builder True True example_world)) = []"
  by (simp add: build_def example_prepare) (simp add: example_env_def example_world_def)



end
